theory Spec2Isabelle
  imports Complex_Main "HOL-Library.Word"
begin

section \<open>Data model\<close>

text \<open>
  The program is a Go service (package \<open>main\<close> and package \<open>tailscale\<close>).  Go's \<open>int64\<close>
  is a 64-bit word read in two's complement (\<open>sint\<close>); \<open>+\<close> and \<open>-\<close> wrap around.
\<close>

type_synonym int64 = "64 word"

text \<open>
  The only \<open>float64\<close> values the accounting code produces are \<open>float64(x)\<close> for an \<open>int64\<close>
  \<open>x\<close>, such a value divided by \<open>1024 * 1024\<close>, and the literal \<open>0\<close>.  All of them are
  rational numbers, so a \<open>float64\<close> is modelled by the rational it denotes; the rounding
  of the conversion is written out in \<open>float64_of_int\<close> below, and the division by the
  power of two \<open>2 ^ 20\<close> is exact in binary floating point (no overflow or underflow
  can occur for magnitudes between \<open>2 ^ 0\<close> and \<open>2 ^ 63\<close>).
\<close>

type_synonym float64 = rat

text \<open>
  \<open>time.Time\<close> values come from \<open>time.Now()\<close> only; they are modelled as instants of
  the monotonic clock in nanoseconds.  \<open>a.Sub(b).Seconds() > 0\<close> holds exactly when
  \<open>a\<close> is later than \<open>b\<close> (saturation of the duration keeps its sign).
\<close>

type_synonym time = int

text \<open>\<open>tailscale.PeerInfo\<close> and \<open>tailscale.Status\<close>\<close>

record PeerInfo =
  PublicKey :: string
  Hostname :: string
  TailscaleIPs :: string
  AllowedIPs :: "string list"
  Online :: bool
  RxBytes :: int64
  TxBytes :: int64

record Status =
  LoggedIn :: bool
  Self :: "PeerInfo option"
  Peers :: "PeerInfo list"

text \<open>
  \<open>main.PeerBandwidth\<close> and \<open>main.PeerReading\<close>.  The field \<open>PublicKey\<close> of
  \<open>PeerBandwidth\<close> is \<open>bwPublicKey\<close> here, \<open>PublicKey\<close> being the field of \<open>PeerInfo\<close>.
\<close>

record PeerBandwidth =
  bwPublicKey :: string
  BytesIn :: float64
  BytesOut :: float64

record PeerReading =
  BytesReceived :: int64
  BytesTransmitted :: int64
  LastChecked :: time

text \<open>The package-level map \<open>lastReadings\<close>.\<close>

type_synonym readings = "string \<rightharpoonup> PeerReading"

datatype error =
    ParseStatusError
  | GetStatusError error
  | CalculateError error
  | TransportError
  | BodyReadError
  | DecodeError
  | FileOpenError
  | FileReadError
  | PostError
  | NonOKStatus nat

section \<open>The mesh status provider\<close>

text \<open>
  \<open>Client.Status\<close> runs \<open>tailscale status --json\<close> and decodes its output.  The three
  outcomes of running and decoding are the input of the model: the command failed, its
  output does not decode as a JSON object, or it does, and then \<open>Parsed\<close> carries the
  \<open>PeerInfo\<close> built from the \<open>Self\<close> entry (when that entry is an object) and the
  \<open>PeerInfo\<close>s built from the entries of \<open>Peer\<close>, in the order the map iteration visits
  them.  A failed command is not an error of \<open>Status\<close>: it yields a status with no self
  information and no peers.
\<close>

datatype cmd_result =
    CmdFailed
  | NotJSON
  | Parsed "PeerInfo option" "PeerInfo list"

definition Status :: "cmd_result \<Rightarrow> error + Status" where
  "Status cmd =
     (case cmd of
        CmdFailed \<Rightarrow> Inr \<lparr>LoggedIn = False, Self = None, Peers = []\<rparr>
      | NotJSON \<Rightarrow> Inl ParseStatusError
      | Parsed self peers \<Rightarrow>
          Inr \<lparr>LoggedIn = (self \<noteq> None), Self = self, Peers = peers\<rparr>)"

section \<open>Conversion of \<open>int64\<close> to \<open>float64\<close>\<close>

text \<open>
  \<open>float64(x)\<close> rounds the integer to 53 significant bits, to nearest, ties to even.
  \<open>f64_shift a\<close> is the number of low bits that do not fit.
\<close>

function f64_shift :: "nat \<Rightarrow> nat" where
  "f64_shift a = (if a < 2 ^ 53 then 0 else Suc (f64_shift (a div 2)))"
  by pat_completeness auto
termination
  by (relation "measure (\<lambda>a. a)") auto

declare f64_shift.simps [simp del]

definition round_half_even :: "nat \<Rightarrow> nat \<Rightarrow> nat" where
  "round_half_even a e =
     (let q = a div 2 ^ e; r = a mod 2 ^ e
      in if 2 * r < 2 ^ e then q
         else if 2 ^ e < 2 * r then q + 1
         else if even q then q else q + 1)"

definition float64_of_int :: "int \<Rightarrow> float64" where
  "float64_of_int x =
     (let a = nat \<bar>x\<bar>; e = f64_shift a
      in of_int (sgn x * int (round_half_even a e * 2 ^ e)))"

definition float64 :: "int64 \<Rightarrow> float64" where
  "float64 x = float64_of_int (sint x)"

section \<open>The bandwidth accountant\<close>

text \<open>
  The byte difference of one counter, as \<open>calculatePeerBandwidth\<close> computes it for
  \<open>bytesInDiff\<close> and for \<open>bytesOutDiff\<close>: the \<open>int64\<close> subtraction, its conversion, and
  the replacement of a negative difference by the current counter.
\<close>

definition bytesDiff :: "int64 \<Rightarrow> int64 \<Rightarrow> float64" where
  "bytesDiff current prior =
     (let d = float64 (current - prior)
      in if d < 0 then float64 current else d)"

text \<open>
  The body of the loop over \<open>status.Peers\<close>.  The current counters of a peer are not
  taken from the snapshot: \<open>tsClient.GetPeerTraffic\<close> queries the daemon again with the
  peer's public key.  Its answers during one cycle are the parameter \<open>traffic\<close>.
\<close>

definition peerStep ::
  "(string \<Rightarrow> int64 \<times> int64) \<Rightarrow> time \<Rightarrow> PeerBandwidth list \<times> readings \<Rightarrow> PeerInfo
     \<Rightarrow> PeerBandwidth list \<times> readings" where
  "peerStep traffic now st peer =
     (let peerBandwidths = fst st; lastReadings = snd st;
          publicKey = PublicKey peer;
          rxBytes = fst (traffic publicKey); txBytes = snd (traffic publicKey);
          currentReading =
            \<lparr>BytesReceived = rxBytes, BytesTransmitted = txBytes, LastChecked = now\<rparr>;
          peerBandwidths' =
            (case lastReadings publicKey of
               Some lastReading \<Rightarrow>
                 if LastChecked currentReading - LastChecked lastReading > 0 then
                   peerBandwidths @
                     [\<lparr>bwPublicKey = publicKey,
                       BytesIn =
                         bytesDiff (BytesReceived currentReading) (BytesReceived lastReading)
                           / (1024 * 1024),
                       BytesOut =
                         bytesDiff (BytesTransmitted currentReading)
                             (BytesTransmitted lastReading)
                           / (1024 * 1024)\<rparr>]
                 else peerBandwidths
             | None \<Rightarrow>
                 peerBandwidths @ [\<lparr>bwPublicKey = publicKey, BytesIn = 0, BytesOut = 0\<rparr>])
      in (peerBandwidths', lastReadings(publicKey \<mapsto> currentReading)))"

text \<open>
  One accounting cycle: the result of the function and the value of \<open>lastReadings\<close>
  after it.
\<close>

definition calculatePeerBandwidth ::
  "cmd_result \<Rightarrow> (string \<Rightarrow> int64 \<times> int64) \<Rightarrow> time \<Rightarrow> readings
     \<Rightarrow> (error + PeerBandwidth list) \<times> readings" where
  "calculatePeerBandwidth cmd traffic now lastReadings =
     (case Status cmd of
        Inl err \<Rightarrow> (Inl (GetStatusError err), lastReadings)
      | Inr status \<Rightarrow>
          (let st = foldl (peerStep traffic now) ([], lastReadings) (Peers status);
               currentPeerKeys = set (map PublicKey (Peers status))
           in (Inr (fst st), snd st |` currentPeerKeys)))"

section \<open>The reporter and the change notifier\<close>

text \<open>
  Outbound HTTP requests are recorded as values: the URL and the JSON body handed to
  \<open>http.Post\<close>.  \<open>post_result\<close> is what \<open>http.Post\<close> returns: a transport error or
  a response with its status code.
\<close>

datatype json_body =
    BandwidthBody "PeerBandwidth list"
  | NotifyBody string string

datatype request = Post string json_body

datatype post_result = PostFailed | PostStatus nat

text \<open>
  \<open>reportPeerBandwidth\<close>, the body of one tick of \<open>periodicBandwidthCheck\<close>: its error
  result, the requests it issues, and \<open>lastReadings\<close> after it.  \<open>json.Marshal\<close> of the
  report list cannot fail, the byte counts being finite numbers.
\<close>

definition reportPeerBandwidth ::
  "string \<Rightarrow> cmd_result \<Rightarrow> (string \<Rightarrow> int64 \<times> int64) \<Rightarrow> time \<Rightarrow> post_result \<Rightarrow> readings
     \<Rightarrow> error option \<times> request list \<times> readings" where
  "reportPeerBandwidth apiURL cmd traffic now resp lastReadings =
     (case calculatePeerBandwidth cmd traffic now lastReadings of
        (Inl err, lr) \<Rightarrow> (Some (CalculateError err), [], lr)
      | (Inr bandwidths, lr) \<Rightarrow>
          (case resp of
             PostFailed \<Rightarrow> (Some PostError, [Post apiURL (BandwidthBody bandwidths)], lr)
           | PostStatus code \<Rightarrow>
               (if code \<noteq> 200 then Some (NonOKStatus code) else None,
                [Post apiURL (BandwidthBody bandwidths)], lr)))"

text \<open>
  \<open>notifyPeerChange\<close>: the requests it issues, given the package-level \<open>notifyURL\<close>.
  No function of the program calls it.
\<close>

definition notifyPeerChange :: "string \<Rightarrow> string \<Rightarrow> string \<Rightarrow> request list" where
  "notifyPeerChange notifyURL action publicKey =
     (if notifyURL = [] then [] else [Post notifyURL (NotifyBody action publicKey)])"

text \<open>Whether a request is a peer-change notification.\<close>

definition isNotification :: "request \<Rightarrow> bool" where
  "isNotification req =
     (case req of
        Post url (NotifyBody action publicKey) \<Rightarrow> True
      | Post url (BandwidthBody bandwidths) \<Rightarrow> False)"

section \<open>The status handler\<close>

text \<open>
  What a handler does with a request: it writes a response (status code and body), or it
  panics.  Reading a field through a nil pointer is a run-time panic in Go; the HTTP
  server recovers it by dropping the connection, so no response is written.
\<close>

datatype response_body =
    ErrorText error
  | StatusJSON bool string string string bool nat

datatype handler_outcome = Response nat response_body | Panic

definition handleStatus :: "cmd_result \<Rightarrow> handler_outcome" where
  "handleStatus cmd =
     (case Status cmd of
        Inl err \<Rightarrow> Response 500 (ErrorText (GetStatusError err))
      | Inr status \<Rightarrow>
          (case Self status of
             None \<Rightarrow> Panic
           | Some self \<Rightarrow>
               Response 200
                 (StatusJSON (LoggedIn status) (Hostname self) (TailscaleIPs self)
                    (PublicKey self) (Online self) (length (Peers status)))))"

section \<open>Configuration acquisition\<close>

text \<open>\<open>main.TailscaleConfig\<close>; its field \<open>Hostname\<close> is \<open>cfgHostname\<close> here.\<close>

record TailscaleConfig =
  AuthKey :: string
  ControlURL :: string
  cfgHostname :: string
  ExitNode :: string
  AcceptRoutes :: bool

definition emptyConfig :: TailscaleConfig where
  "emptyConfig =
     \<lparr>AuthKey = [], ControlURL = [], cfgHostname = [], ExitNode = [],
      AcceptRoutes = False\<rparr>"

text \<open>
  One \<open>http.Get\<close> of the remote configuration: a transport error, a response whose body
  cannot be read, or a response with its status code, the value \<open>json.Unmarshal\<close> leaves
  in the zero-initialised \<open>config\<close>, and whether \<open>json.Unmarshal\<close> returned an error.
\<close>

datatype http_get =
    GetFailed
  | BodyUnreadable nat
  | Body nat TailscaleConfig bool

definition loadRemoteConfig :: "http_get \<Rightarrow> TailscaleConfig \<times> error option" where
  "loadRemoteConfig r =
     (case r of
        GetFailed \<Rightarrow> (emptyConfig, Some TransportError)
      | BodyUnreadable code \<Rightarrow> (emptyConfig, Some BodyReadError)
      | Body code config failed \<Rightarrow> (config, if failed then Some DecodeError else None))"

datatype file_read =
    OpenFailed
  | ReadFailed
  | FileData TailscaleConfig bool

definition loadConfig :: "file_read \<Rightarrow> TailscaleConfig \<times> error option" where
  "loadConfig f =
     (case f of
        OpenFailed \<Rightarrow> (emptyConfig, Some FileOpenError)
      | ReadFailed \<Rightarrow> (emptyConfig, Some FileReadError)
      | FileData config failed \<Rightarrow>
          if failed then (emptyConfig, Some DecodeError) else (config, None))"

text \<open>
  \<open>strings.TrimSuffix\<close>, and the two lines of \<open>main\<close> that clean the remote
  configuration URL before \<open>main\<close> looks at it.
\<close>

definition TrimSuffix :: "string \<Rightarrow> string \<Rightarrow> string" where
  "TrimSuffix s suffix =
     (if length suffix \<le> length s \<and> drop (length s - length suffix) s = suffix
      then take (length s - length suffix) s
      else s)"

definition cleanRemoteConfigURL :: "string \<Rightarrow> string" where
  "cleanRemoteConfigURL remoteConfigURL =
     TrimSuffix (TrimSuffix remoteConfigURL ''/gerbil/get-config'') ''/''"

text \<open>
  What \<open>main\<close> does while it acquires its configuration is a trace of events: a fetch of
  the remote configuration from a URL, or a \<open>time.Sleep\<close> of so many seconds.  The
  acquisition ends in \<open>logger.Fatal\<close> (the process exits), or it proceeds with a
  configuration, or, when the loop is still running after the last of the given fetch
  outcomes, it is \<open>StillRetrying\<close>.
\<close>

datatype event = Fetch string | Sleep nat

datatype acquisition =
    Fatal
  | Proceed "event list" TailscaleConfig
  | StillRetrying "event list"

text \<open>
  The loop \<open>for tsconfig.AuthKey == ""\<close> of \<open>main\<close>, over the outcomes of its successive
  fetches of \<open>url\<close>; \<open>trace\<close> holds the events so far.  \<open>tsconfig\<close> is assigned also when
  \<open>loadRemoteConfig\<close> returns an error.
\<close>

fun remoteConfigLoop ::
  "string \<Rightarrow> event list \<Rightarrow> TailscaleConfig \<Rightarrow> http_get list \<Rightarrow> acquisition" where
  "remoteConfigLoop url trace tsconfig [] =
     (if AuthKey tsconfig = [] then StillRetrying trace else Proceed trace tsconfig)"
| "remoteConfigLoop url trace tsconfig (r # rs) =
     (if AuthKey tsconfig = [] then
        (case loadRemoteConfig r of
           (tsconfig', Some err) \<Rightarrow>
             remoteConfigLoop url (trace @ [Fetch url, Sleep 5]) tsconfig' rs
         | (tsconfig', None) \<Rightarrow> remoteConfigLoop url (trace @ [Fetch url]) tsconfig' rs)
      else Proceed trace tsconfig)"

text \<open>
  The configuration part of \<open>main\<close>.  \<open>configFile\<close> and \<open>remoteConfigURL\<close> are the startup
  parameters as given, and \<open>direct\<close> is the configuration built from the auth key, the
  control URL and the hostname of the environment variables or flags.
\<close>

definition acquireConfig ::
  "string \<Rightarrow> string \<Rightarrow> TailscaleConfig \<Rightarrow> file_read \<Rightarrow> http_get list \<Rightarrow> acquisition" where
  "acquireConfig configFile remoteConfigURL direct file fetches =
     (let remoteConfigURL' = cleanRemoteConfigURL remoteConfigURL
      in if configFile \<noteq> [] then
           (case loadConfig file of
              (tsconfig, Some err) \<Rightarrow> Fatal
            | (tsconfig, None) \<Rightarrow> Proceed [] tsconfig)
         else if remoteConfigURL' \<noteq> [] then
           remoteConfigLoop (remoteConfigURL' @ ''/gerbil/get-tailscale-config'') []
             emptyConfig fetches
         else if AuthKey direct = [] then Fatal
         else Proceed [] direct)"

section \<open>What a cycle emits for one key\<close>

text \<open>
  Two functions for stating what the loop of \<open>calculatePeerBandwidth\<close> has done to one
  public key: the reading it stores for the key, and the reports it appends for the key
  when it first meets it, given the readings at that moment.
\<close>

definition reading :: "(string \<Rightarrow> int64 \<times> int64) \<Rightarrow> time \<Rightarrow> string \<Rightarrow> PeerReading" where
  "reading traffic now k =
     \<lparr>BytesReceived = fst (traffic k), BytesTransmitted = snd (traffic k), LastChecked = now\<rparr>"

definition emitted :: "(string \<Rightarrow> int64 \<times> int64) \<Rightarrow> time \<Rightarrow> readings \<Rightarrow> string \<Rightarrow> PeerBandwidth list" where
  "emitted traffic now lr k =
     (case lr k of
        None \<Rightarrow> [\<lparr>bwPublicKey = k, BytesIn = 0, BytesOut = 0\<rparr>]
      | Some prior \<Rightarrow>
          if LastChecked prior < now then
            [\<lparr>bwPublicKey = k,
              BytesIn = bytesDiff (fst (traffic k)) (BytesReceived prior) / 1048576,
              BytesOut = bytesDiff (snd (traffic k)) (BytesTransmitted prior) / 1048576\<rparr>]
          else [])"

section \<open>The retry policy, as the specification words it\<close>






section \<open>Example inputs\<close>

text \<open>A peer as \<open>Client.Status\<close> builds it, with the given public key.\<close>

definition examplePeer :: "string \<Rightarrow> PeerInfo" where
  "examplePeer k =
     \<lparr>PublicKey = k, Hostname = ''node'', TailscaleIPs = ''100.64.0.2'', AllowedIPs = [],
      Online = True, RxBytes = 0, TxBytes = 0\<rparr>"

text \<open>A configuration as the controller serves it.\<close>

definition exampleConfig :: TailscaleConfig where
  "exampleConfig =
     \<lparr>AuthKey = ''tskey-auth'', ControlURL = [], cfgHostname = ''gerbil'', ExitNode = [],
      AcceptRoutes = False\<rparr>"

section \<open>Properties of the conversion to \<open>float64\<close>\<close>

lemma f64_shift_small: "a < 2 ^ 53 \<Longrightarrow> f64_shift a = 0"
  by (subst f64_shift.simps) simp

lemma round_half_even_0: "round_half_even a 0 = a"
  by (simp add: round_half_even_def)

lemma round_half_even_ge: "a div 2 ^ e \<le> round_half_even a e"
  by (simp add: round_half_even_def Let_def)

lemma f64_shift_div_pos: "0 < a \<Longrightarrow> 0 < a div 2 ^ f64_shift a"
proof (induction a rule: f64_shift.induct)
  case (1 a)
  show ?case
  proof (cases "a < 2 ^ 53")
    case True
    with 1 show ?thesis by (simp add: f64_shift_small)
  next
    case False
    then have "0 < a div 2" by simp
    with 1 False have "0 < (a div 2) div 2 ^ f64_shift (a div 2)" by simp
    moreover have "f64_shift a = Suc (f64_shift (a div 2))"
      using False by (subst f64_shift.simps) simp
    ultimately show ?thesis by (simp add: div_mult2_eq)
  qed
qed

lemma float64_of_int_exact:
  assumes "\<bar>x\<bar> < 2 ^ 53"
  shows "float64_of_int x = of_int x"
proof -
  have "nat \<bar>x\<bar> < 2 ^ 53" using assms by (simp add: nat_less_iff)
  then have "f64_shift (nat \<bar>x\<bar>) = 0" by (rule f64_shift_small)
  then have "float64_of_int x = of_int (sgn x * \<bar>x\<bar>)"
    by (simp add: float64_of_int_def round_half_even_0)
  then show ?thesis by (simp add: mult_sgn_abs)
qed

lemma f64_shift_numeral [simp]:
  "f64_shift (numeral n) =
     (if (numeral n :: nat) < 2 ^ 53 then 0 else Suc (f64_shift (numeral n div 2)))"
  by (rule f64_shift.simps)

lemma float64_of_int_2_53: "float64_of_int 9007199254740992 = 9007199254740992"
  by (simp add: float64_of_int_def round_half_even_def)

lemma float64_of_int_exact_le:
  assumes "0 \<le> x" "x \<le> 2 ^ 53"
  shows "float64_of_int x = of_int x"
proof (cases "x = 2 ^ 53")
  case True
  then show ?thesis by (simp add: float64_of_int_2_53)
next
  case False
  with assms have "\<bar>x\<bar> < 2 ^ 53" by simp
  then show ?thesis by (rule float64_of_int_exact)
qed

lemma float64_of_int_nonneg: "0 \<le> x \<Longrightarrow> 0 \<le> float64_of_int x"
  by (simp add: float64_of_int_def Let_def sgn_if)

lemma float64_of_int_neg:
  assumes "x < 0" shows "float64_of_int x < 0"
proof -
  define a where "a = nat \<bar>x\<bar>"
  define m where "m = round_half_even a (f64_shift a) * 2 ^ f64_shift a"
  have "0 < a" using assms by (simp add: a_def)
  then have "0 < a div 2 ^ f64_shift a" by (rule f64_shift_div_pos)
  also have "\<dots> \<le> round_half_even a (f64_shift a)" by (rule round_half_even_ge)
  finally have "0 < m" by (simp add: m_def)
  then have "sgn x * int m < 0" using assms by (simp add: sgn_if)
  then have "(of_int (sgn x * int m) :: rat) < 0" by (simp only: of_int_less_0_iff)
  then show ?thesis by (simp only: float64_of_int_def Let_def a_def m_def)
qed

lemma float64_of_int_neg_iff: "float64_of_int x < 0 \<longleftrightarrow> x < 0"
  using float64_of_int_neg [of x] float64_of_int_nonneg [of x] by (cases "x < 0") auto


lemma float64_of_int_neg_2_53: "float64_of_int (- 9007199254740992) = - 9007199254740992"
  by (simp add: float64_of_int_def round_half_even_def)

lemma float64_of_int_exact_abs:
  assumes "\<bar>x\<bar> \<le> 2 ^ 53"
  shows "float64_of_int x = of_int x"
proof -
  consider "\<bar>x\<bar> < 2 ^ 53" | "x = 2 ^ 53" | "x = - (2 ^ 53)"
    using assms by linarith
  then show ?thesis
  proof cases
    case 1
    then show ?thesis by (rule float64_of_int_exact)
  next
    case 2
    then show ?thesis by (simp add: float64_of_int_2_53)
  next
    case 3
    then show ?thesis by (simp add: float64_of_int_neg_2_53)
  qed
qed

lemma float64_nonneg: "0 \<le> sint x \<Longrightarrow> 0 \<le> float64 x"
  by (simp add: float64_def float64_of_int_nonneg)

section \<open>Properties of \<open>int64\<close> subtraction\<close>

lemma sint_sub_exact:
  fixes a b :: int64
  assumes "- (2 ^ 63) \<le> sint a - sint b" "sint a - sint b < 2 ^ 63"
  shows "sint (a - b) = sint a - sint b"
proof -
  have "sint (a - b) = signed_take_bit 63 (sint a - sint b)"
    by (simp add: sint_word_ariths)
  also have "\<dots> = sint a - sint b"
    using assms by (intro signed_take_bit_int_eq_self) simp_all
  finally show ?thesis .
qed

lemma bytesDiff_nonneg: "0 \<le> sint current \<Longrightarrow> 0 \<le> bytesDiff current prior"
  by (simp add: bytesDiff_def Let_def float64_nonneg)

lemma bytesDiff_increase:
  assumes "sint prior \<le> sint current" "sint current - sint prior < 2 ^ 63"
  shows "bytesDiff current prior = float64_of_int (sint current - sint prior)"
proof -
  have "sint (current - prior) = sint current - sint prior"
    using assms by (intro sint_sub_exact) simp_all
  moreover have "\<not> float64_of_int (sint current - sint prior) < 0"
    using assms by (simp add: float64_of_int_neg_iff)
  ultimately show ?thesis
    by (simp add: bytesDiff_def float64_def)
qed

lemma bytesDiff_exact:
  assumes "sint prior \<le> sint current" "sint current - sint prior \<le> 2 ^ 53"
  shows "bytesDiff current prior = of_int (sint current - sint prior)"
proof -
  have "bytesDiff current prior = float64_of_int (sint current - sint prior)"
    using assms by (intro bytesDiff_increase) simp_all
  also have "\<dots> = of_int (sint current - sint prior)"
    using assms by (intro float64_of_int_exact_abs) simp
  finally show ?thesis .
qed

lemma bytesDiff_reset:
  assumes "sint current < sint prior" "- (2 ^ 63) \<le> sint current - sint prior"
  shows "bytesDiff current prior = float64 current"
proof -
  have "sint (current - prior) = sint current - sint prior"
    using assms by (intro sint_sub_exact) simp_all
  moreover have "float64_of_int (sint current - sint prior) < 0"
    using assms by (simp add: float64_of_int_neg_iff)
  ultimately show ?thesis
    by (simp add: bytesDiff_def float64_def)
qed

section \<open>Properties of the accounting loop\<close>

lemma peerStep_eq:
  "peerStep traffic now (bws, lr) peer =
     (bws @ emitted traffic now lr (PublicKey peer),
      lr(PublicKey peer \<mapsto> reading traffic now (PublicKey peer)))"
  by (simp add: peerStep_def emitted_def reading_def Let_def split: option.split)

lemma emitted_keys: "r \<in> set (emitted traffic now lr k) \<Longrightarrow> bwPublicKey r = k"
  by (auto simp: emitted_def split: option.splits if_splits)

lemma filter_emitted_same:
  "filter (\<lambda>r. bwPublicKey r = k) (emitted traffic now lr k) = emitted traffic now lr k"
  by (rule filter_True) (simp add: emitted_keys)

lemma filter_emitted_other:
  "k' \<noteq> k \<Longrightarrow> filter (\<lambda>r. bwPublicKey r = k) (emitted traffic now lr k') = []"
  by (auto simp: filter_empty_conv dest: emitted_keys)

lemma emitted_after_update:
  "emitted traffic now (lr(k \<mapsto> reading traffic now k)) k = []"
  by (simp add: emitted_def reading_def)

lemma emitted_update_other:
  "k' \<noteq> k \<Longrightarrow> emitted traffic now (lr(k' \<mapsto> v)) k = emitted traffic now lr k"
  by (simp add: emitted_def)

lemma loop_reports:
  "filter (\<lambda>r. bwPublicKey r = k) (fst (foldl (peerStep traffic now) (bws, lr) ps))
     = filter (\<lambda>r. bwPublicKey r = k) bws
       @ (if k \<in> PublicKey ` set ps then emitted traffic now lr k else [])"
proof (induction ps arbitrary: bws lr)
  case Nil
  show ?case by simp
next
  case (Cons p ps)
  show ?case
  proof (cases "PublicKey p = k")
    case True
    then show ?thesis
      by (simp add: peerStep_eq Cons.IH filter_emitted_same emitted_after_update)
  next
    case False
    then show ?thesis
      by (simp add: peerStep_eq Cons.IH filter_emitted_other emitted_update_other)
  qed
qed

lemma loop_readings:
  "snd (foldl (peerStep traffic now) (bws, lr) ps) k
     = (if k \<in> PublicKey ` set ps then Some (reading traffic now k) else lr k)"
proof (induction ps arbitrary: bws lr)
  case Nil
  show ?case by simp
next
  case (Cons p ps)
  show ?case by (simp add: peerStep_eq Cons.IH)
qed

lemma loop_report_keys:
  "r \<in> set (fst (foldl (peerStep traffic now) (bws, lr) ps)) \<Longrightarrow>
     r \<in> set bws \<or> bwPublicKey r \<in> PublicKey ` set ps"
proof (induction ps arbitrary: bws lr)
  case Nil
  then show ?case by simp
next
  case (Cons p ps)
  from Cons.prems have "r \<in> set (fst (foldl (peerStep traffic now)
      (bws @ emitted traffic now lr (PublicKey p),
       lr(PublicKey p \<mapsto> reading traffic now (PublicKey p))) ps))"
    by (simp add: peerStep_eq)
  from Cons.IH [OF this] show ?case
    by (auto dest: emitted_keys)
qed

lemma cycle_ok:
  assumes "Status cmd = Inr status"
  shows "calculatePeerBandwidth cmd traffic now lr =
    (Inr (fst (foldl (peerStep traffic now) ([], lr) (Peers status))),
     snd (foldl (peerStep traffic now) ([], lr) (Peers status)) |` (PublicKey ` set (Peers status)))"
  using assms by (simp add: calculatePeerBandwidth_def Let_def)


lemma cycle_returns_list:
  assumes "Status cmd = Inr status"
  shows "fst (calculatePeerBandwidth cmd traffic now lr)
           = Inr (fst (foldl (peerStep traffic now) ([], lr) (Peers status)))"
  using assms by (simp add: cycle_ok)

lemma cycle_reports:
  assumes "Status cmd = Inr status"
    and "fst (calculatePeerBandwidth cmd traffic now lr) = Inr reports"
  shows "filter (\<lambda>r. bwPublicKey r = k) reports
           = (if k \<in> PublicKey ` set (Peers status) then emitted traffic now lr k else [])"
proof -
  have "reports = fst (foldl (peerStep traffic now) ([], lr) (Peers status))"
    using assms by (simp add: cycle_ok)
  then show ?thesis
    by (simp add: loop_reports)
qed

lemma cycle_readings:
  assumes "Status cmd = Inr status"
  shows "snd (calculatePeerBandwidth cmd traffic now lr) k
           = (if k \<in> PublicKey ` set (Peers status) then Some (reading traffic now k) else None)"
  using assms by (simp add: cycle_ok loop_readings restrict_map_def)

lemma cycle_report_keys:
  assumes "Status cmd = Inr status"
    and "fst (calculatePeerBandwidth cmd traffic now lr) = Inr reports"
    and "r \<in> set reports"
  shows "bwPublicKey r \<in> PublicKey ` set (Peers status)"
proof -
  have "reports = fst (foldl (peerStep traffic now) ([], lr) (Peers status))"
    using assms by (simp add: cycle_ok)
  with assms(3) loop_report_keys [of r traffic now "[]" lr "Peers status"]
  show ?thesis by simp
qed

lemma cycle_report_emitted:
  assumes "Status cmd = Inr status"
    and "fst (calculatePeerBandwidth cmd traffic now lr) = Inr reports"
    and "r \<in> set reports"
  shows "r \<in> set (emitted traffic now lr (bwPublicKey r))"
proof -
  have "r \<in> set (filter (\<lambda>r'. bwPublicKey r' = bwPublicKey r) reports)"
    using assms(3) by simp
  also have "filter (\<lambda>r'. bwPublicKey r' = bwPublicKey r) reports
      = emitted traffic now lr (bwPublicKey r)"
    using cycle_reports [OF assms(1,2)] cycle_report_keys [OF assms] by simp
  finally show ?thesis .
qed

lemma cycle_dom:
  assumes "Status cmd = Inr status"
  shows "dom (snd (calculatePeerBandwidth cmd traffic now lr)) = PublicKey ` set (Peers status)"
  using cycle_readings [OF assms] by (auto simp: dom_def split: if_splits)

lemma emitted_nonneg:
  assumes "r \<in> set (emitted traffic now lr k)"
    and "0 \<le> sint (fst (traffic k))" and "0 \<le> sint (snd (traffic k))"
  shows "0 \<le> BytesIn r \<and> 0 \<le> BytesOut r"
  using assms by (auto simp: emitted_def bytesDiff_nonneg split: option.splits if_splits)

text \<open>The definitions that evaluate a cycle on concrete inputs.\<close>

lemmas cycle_eval =
  calculatePeerBandwidth_def Status_def peerStep_def bytesDiff_def float64_def
  float64_of_int_def round_half_even_def examplePeer_def Let_def

section \<open>Deltas of counters that did not decrease\<close>

text \<open>
  Claim C1.  For a peer of the snapshot with a cached prior reading whose received and
  transmitted counters are not below the cached ones, the report of the cycle carries
  \<open>(current - prior) / 1048576\<close> for each direction.  The code converts the \<open>int64\<close>
  difference to \<open>float64\<close> before it divides, so the value is the exact quotient when
  each difference is at most \<open>2 ^ 53\<close>.  The reports of the cycle for the peer's key are
  then this one report when the cycle's time is later than the cached one, and none
  otherwise.
\<close>

theorem increasing_counters_exact_delta:
  assumes "Status cmd = Inr status"
    and "peer \<in> set (Peers status)"
    and "lr (PublicKey peer) = Some prior"
    and "traffic (PublicKey peer) = (rx, tx)"
    and "sint (BytesReceived prior) \<le> sint rx"
    and "sint rx - sint (BytesReceived prior) \<le> 2 ^ 53"
    and "sint (BytesTransmitted prior) \<le> sint tx"
    and "sint tx - sint (BytesTransmitted prior) \<le> 2 ^ 53"
    and "fst (calculatePeerBandwidth cmd traffic now lr) = Inr reports"
  shows "filter (\<lambda>r. bwPublicKey r = PublicKey peer) reports
           = (if LastChecked prior < now then
                [\<lparr>bwPublicKey = PublicKey peer,
                  BytesIn = of_int (sint rx - sint (BytesReceived prior)) / 1048576,
                  BytesOut = of_int (sint tx - sint (BytesTransmitted prior)) / 1048576\<rparr>]
              else [])"
proof -
  have "filter (\<lambda>r. bwPublicKey r = PublicKey peer) reports
          = emitted traffic now lr (PublicKey peer)"
    using cycle_reports [OF assms(1) assms(9)] assms(2) by simp
  moreover have "bytesDiff rx (BytesReceived prior) = of_int (sint rx - sint (BytesReceived prior))"
    using assms(5,6) by (rule bytesDiff_exact)
  moreover have "bytesDiff tx (BytesTransmitted prior)
      = of_int (sint tx - sint (BytesTransmitted prior))"
    using assms(7,8) by (rule bytesDiff_exact)
  ultimately show ?thesis
    using assms(3,4) by (simp add: emitted_def)
qed

theorem increasing_counters_exact_delta_witness:
  "fst (calculatePeerBandwidth (Parsed None [examplePeer ''P'']) (\<lambda>k. (1049576, 500)) 100
         [''P'' \<mapsto> \<lparr>BytesReceived = 1000, BytesTransmitted = 500, LastChecked = 90\<rparr>])
     = Inr [\<lparr>bwPublicKey = ''P'', BytesIn = 1, BytesOut = 0\<rparr>]
   \<and> filter (\<lambda>r. bwPublicKey r = ''P'') [\<lparr>bwPublicKey = ''P'', BytesIn = 1, BytesOut = 0\<rparr>]
     = [\<lparr>bwPublicKey = ''P'',
         BytesIn = of_int (sint (1049576 :: int64) - sint (1000 :: int64)) / 1048576,
         BytesOut = of_int (sint (500 :: int64) - sint (500 :: int64)) / 1048576\<rparr>]"
proof -
  let ?lr = "[''P'' \<mapsto> \<lparr>BytesReceived = 1000, BytesTransmitted = 500, LastChecked = 90\<rparr>]"
  let ?prior = "\<lparr>BytesReceived = 1000, BytesTransmitted = 500, LastChecked = 90\<rparr>"
  have h1: "Status (Parsed None [examplePeer ''P''])
      = Inr \<lparr>LoggedIn = False, Self = None, Peers = [examplePeer ''P'']\<rparr>"
    by (simp add: Status_def)
  have h2: "examplePeer ''P''
      \<in> set (Peers \<lparr>LoggedIn = False, Self = None, Peers = [examplePeer ''P'']\<rparr>)"
    by simp
  have h3: "?lr (PublicKey (examplePeer ''P'')) = Some ?prior"
    by (simp add: examplePeer_def)
  have h4: "(\<lambda>k :: string. (1049576 :: int64, 500 :: int64)) (PublicKey (examplePeer ''P''))
      = (1049576, 500)"
    by simp
  have h5: "sint (BytesReceived ?prior) \<le> sint (1049576 :: int64)" by simp
  have h6: "sint (1049576 :: int64) - sint (BytesReceived ?prior) \<le> 2 ^ 53" by simp
  have h7: "sint (BytesTransmitted ?prior) \<le> sint (500 :: int64)" by simp
  have h8: "sint (500 :: int64) - sint (BytesTransmitted ?prior) \<le> 2 ^ 53" by simp
  have h9: "fst (calculatePeerBandwidth (Parsed None [examplePeer ''P''])
                (\<lambda>k. (1049576, 500)) 100 ?lr)
      = Inr [\<lparr>bwPublicKey = ''P'', BytesIn = 1, BytesOut = 0\<rparr>]"
    by (simp add: cycle_eval)
  from increasing_counters_exact_delta [OF h1 h2 h3 h4 h5 h6 h7 h8 h9] h9
  show ?thesis by (simp add: examplePeer_def)
qed

text \<open>
  Above \<open>2 ^ 53\<close> the conversion rounds.  With a cached \<open>rx = 1\<close> and a current
  \<open>rx = 2 ^ 53 + 2\<close> (both of them values a JSON number carries exactly) the difference
  \<open>2 ^ 53 + 1\<close> becomes \<open>2 ^ 53\<close>, and the report carries \<open>2 ^ 33\<close> megabytes, which is
  not the exact quotient.  And a difference of \<open>2 ^ 63\<close> or more overflows the \<open>int64\<close>
  subtraction: with a cached \<open>rx = - (2 ^ 62)\<close> and a current \<open>rx = 2 ^ 62\<close> the
  subtraction wraps to a negative number, and the report carries the current counter,
  \<open>2 ^ 42\<close> megabytes, in place of the difference.
\<close>

theorem exact_delta_counterexample:
  "sint (1 :: int64) \<le> sint (9007199254740994 :: int64)
   \<and> sint (500 :: int64) \<le> sint (500 :: int64)
   \<and> fst (calculatePeerBandwidth (Parsed None [examplePeer ''P''])
          (\<lambda>k. (9007199254740994, 500)) 100
          [''P'' \<mapsto> \<lparr>BytesReceived = 1, BytesTransmitted = 500, LastChecked = 90\<rparr>])
     = Inr [\<lparr>bwPublicKey = ''P'', BytesIn = 8589934592, BytesOut = 0\<rparr>]
   \<and> (8589934592 :: rat)
       \<noteq> of_int (sint (9007199254740994 :: int64) - sint (1 :: int64)) / 1048576
   \<and> sint (- 4611686018427387904 :: int64) \<le> sint (4611686018427387904 :: int64)
   \<and> fst (calculatePeerBandwidth (Parsed None [examplePeer ''P''])
          (\<lambda>k. (4611686018427387904, 500)) 100
          [''P'' \<mapsto> \<lparr>BytesReceived = - 4611686018427387904, BytesTransmitted = 500,
                     LastChecked = 90\<rparr>])
     = Inr [\<lparr>bwPublicKey = ''P'', BytesIn = 4398046511104, BytesOut = 0\<rparr>]
   \<and> (4398046511104 :: rat)
       \<noteq> of_int (sint (4611686018427387904 :: int64)
                  - sint (- 4611686018427387904 :: int64)) / 1048576"
  by (simp add: cycle_eval)

section \<open>Deltas of counters that went back\<close>

text \<open>
  Claim C2.  For a peer of the snapshot with a cached prior reading, each direction is
  treated on its own: when the current counter is below the cached one, the report
  carries the current counter itself, converted to \<open>float64\<close> and divided by \<open>1048576\<close>,
  and otherwise the converted difference divided by \<open>1048576\<close>.  This holds when neither
  \<open>int64\<close> subtraction overflows, which is so whenever no counter is negative.
\<close>

theorem reset_counter_reports_current_value:
  assumes "Status cmd = Inr status"
    and "peer \<in> set (Peers status)"
    and "lr (PublicKey peer) = Some prior"
    and "traffic (PublicKey peer) = (rx, tx)"
    and "- (2 ^ 63) \<le> sint rx - sint (BytesReceived prior)"
    and "sint rx - sint (BytesReceived prior) < 2 ^ 63"
    and "- (2 ^ 63) \<le> sint tx - sint (BytesTransmitted prior)"
    and "sint tx - sint (BytesTransmitted prior) < 2 ^ 63"
    and "fst (calculatePeerBandwidth cmd traffic now lr) = Inr reports"
  shows "filter (\<lambda>r. bwPublicKey r = PublicKey peer) reports
           = (if LastChecked prior < now then
                [\<lparr>bwPublicKey = PublicKey peer,
                  BytesIn =
                    (if sint rx < sint (BytesReceived prior) then float64 rx
                     else float64_of_int (sint rx - sint (BytesReceived prior))) / 1048576,
                  BytesOut =
                    (if sint tx < sint (BytesTransmitted prior) then float64 tx
                     else float64_of_int (sint tx - sint (BytesTransmitted prior))) / 1048576\<rparr>]
              else [])"
proof -
  have "filter (\<lambda>r. bwPublicKey r = PublicKey peer) reports
          = emitted traffic now lr (PublicKey peer)"
    using cycle_reports [OF assms(1) assms(9)] assms(2) by simp
  moreover have "bytesDiff rx (BytesReceived prior)
      = (if sint rx < sint (BytesReceived prior) then float64 rx
         else float64_of_int (sint rx - sint (BytesReceived prior)))"
    using assms(5,6) by (simp add: bytesDiff_reset bytesDiff_increase)
  moreover have "bytesDiff tx (BytesTransmitted prior)
      = (if sint tx < sint (BytesTransmitted prior) then float64 tx
         else float64_of_int (sint tx - sint (BytesTransmitted prior)))"
    using assms(7,8) by (simp add: bytesDiff_reset bytesDiff_increase)
  ultimately show ?thesis
    using assms(3,4) by (simp add: emitted_def)
qed

theorem reset_counter_reports_current_value_witness:
  "fst (calculatePeerBandwidth (Parsed None [examplePeer ''P'']) (\<lambda>k. (2097152, 3145728)) 100
         [''P'' \<mapsto> \<lparr>BytesReceived = 5000000, BytesTransmitted = 1048576, LastChecked = 90\<rparr>])
     = Inr [\<lparr>bwPublicKey = ''P'', BytesIn = 2, BytesOut = 2\<rparr>]
   \<and> filter (\<lambda>r. bwPublicKey r = ''P'') [\<lparr>bwPublicKey = ''P'', BytesIn = 2, BytesOut = 2\<rparr>]
     = [\<lparr>bwPublicKey = ''P'', BytesIn = float64 2097152 / 1048576,
         BytesOut = float64_of_int (sint (3145728 :: int64) - sint (1048576 :: int64)) / 1048576\<rparr>]"
proof -
  let ?prior = "\<lparr>BytesReceived = 5000000, BytesTransmitted = 1048576, LastChecked = 90\<rparr>"
  let ?lr = "[''P'' \<mapsto> ?prior]"
  have h1: "Status (Parsed None [examplePeer ''P''])
      = Inr \<lparr>LoggedIn = False, Self = None, Peers = [examplePeer ''P'']\<rparr>"
    by (simp add: Status_def)
  have h2: "examplePeer ''P''
      \<in> set (Peers \<lparr>LoggedIn = False, Self = None, Peers = [examplePeer ''P'']\<rparr>)"
    by simp
  have h3: "?lr (PublicKey (examplePeer ''P'')) = Some ?prior"
    by (simp add: examplePeer_def)
  have h4: "(\<lambda>k :: string. (2097152 :: int64, 3145728 :: int64)) (PublicKey (examplePeer ''P''))
      = (2097152, 3145728)"
    by simp
  have h5: "- (2 ^ 63) \<le> sint (2097152 :: int64) - sint (BytesReceived ?prior)" by simp
  have h6: "sint (2097152 :: int64) - sint (BytesReceived ?prior) < 2 ^ 63" by simp
  have h7: "- (2 ^ 63) \<le> sint (3145728 :: int64) - sint (BytesTransmitted ?prior)" by simp
  have h8: "sint (3145728 :: int64) - sint (BytesTransmitted ?prior) < 2 ^ 63" by simp
  have h9: "fst (calculatePeerBandwidth (Parsed None [examplePeer ''P''])
                (\<lambda>k. (2097152, 3145728)) 100 ?lr)
      = Inr [\<lparr>bwPublicKey = ''P'', BytesIn = 2, BytesOut = 2\<rparr>]"
    by (simp add: cycle_eval)
  from reset_counter_reports_current_value [OF h1 h2 h3 h4 h5 h6 h7 h8 h9] h9
  show ?thesis by (simp add: examplePeer_def)
qed

text \<open>
  When the subtraction overflows, a counter that went back is not seen as one.  With a
  cached \<open>rx = 2 ^ 62\<close> and a current \<open>rx = - (2 ^ 62) - 1024\<close> the difference wraps to
  \<open>2 ^ 63 - 1024\<close>, which is positive, and the report carries that difference and not
  the current counter.
\<close>

theorem reset_counter_counterexample:
  "sint (- 4611686018427388928 :: int64) < sint (4611686018427387904 :: int64)
   \<and> fst (calculatePeerBandwidth (Parsed None [examplePeer ''P''])
          (\<lambda>k. (- 4611686018427388928, 500)) 100
          [''P'' \<mapsto> \<lparr>BytesReceived = 4611686018427387904, BytesTransmitted = 500,
                     LastChecked = 90\<rparr>])
     = Inr [\<lparr>bwPublicKey = ''P'', BytesIn = 9007199254740991 / 1024, BytesOut = 0\<rparr>]
   \<and> (9007199254740991 / 1024 :: rat)
       \<noteq> of_int (sint (- 4611686018427388928 :: int64)) / 1048576"
  by (simp add: cycle_eval)

section \<open>A peer seen for the first time\<close>

text \<open>
  Claim C3.  For a peer of the snapshot with no cached reading, the cycle returns a
  report list whose reports for the peer's key are one report with \<open>BytesIn = 0\<close> and
  \<open>BytesOut = 0\<close>, and after the cycle \<open>lastReadings\<close> holds, under its key, the current
  counters and the time of the cycle.
\<close>

theorem first_seen_peer_baseline:
  assumes "Status cmd = Inr status"
    and "peer \<in> set (Peers status)"
    and "lr (PublicKey peer) = None"
  shows "(\<exists>reports.
            fst (calculatePeerBandwidth cmd traffic now lr) = Inr reports
            \<and> filter (\<lambda>r. bwPublicKey r = PublicKey peer) reports
              = [\<lparr>bwPublicKey = PublicKey peer, BytesIn = 0, BytesOut = 0\<rparr>])
         \<and> snd (calculatePeerBandwidth cmd traffic now lr) (PublicKey peer)
           = Some \<lparr>BytesReceived = fst (traffic (PublicKey peer)),
                   BytesTransmitted = snd (traffic (PublicKey peer)),
                   LastChecked = now\<rparr>"
proof
  define reports where "reports = fst (foldl (peerStep traffic now) ([], lr) (Peers status))"
  have res: "fst (calculatePeerBandwidth cmd traffic now lr) = Inr reports"
    unfolding reports_def using assms(1) by (rule cycle_returns_list)
  have "filter (\<lambda>r. bwPublicKey r = PublicKey peer) reports
          = emitted traffic now lr (PublicKey peer)"
    using cycle_reports [OF assms(1) res] assms(2) by simp
  then have "filter (\<lambda>r. bwPublicKey r = PublicKey peer) reports
           = [\<lparr>bwPublicKey = PublicKey peer, BytesIn = 0, BytesOut = 0\<rparr>]"
    using assms(3) by (simp add: emitted_def)
  with res show "\<exists>reports.
            fst (calculatePeerBandwidth cmd traffic now lr) = Inr reports
            \<and> filter (\<lambda>r. bwPublicKey r = PublicKey peer) reports
              = [\<lparr>bwPublicKey = PublicKey peer, BytesIn = 0, BytesOut = 0\<rparr>]"
    by blast
next
  show "snd (calculatePeerBandwidth cmd traffic now lr) (PublicKey peer)
           = Some \<lparr>BytesReceived = fst (traffic (PublicKey peer)),
                   BytesTransmitted = snd (traffic (PublicKey peer)),
                   LastChecked = now\<rparr>"
    using cycle_readings [OF assms(1)] assms(2) by (simp add: reading_def)
qed

theorem first_seen_peer_baseline_witness:
  "fst (calculatePeerBandwidth (Parsed None [examplePeer ''P'', examplePeer ''Q''])
         (\<lambda>k. (1000, 500)) 100
         [''Q'' \<mapsto> \<lparr>BytesReceived = 400, BytesTransmitted = 500, LastChecked = 90\<rparr>])
     = Inr [\<lparr>bwPublicKey = ''P'', BytesIn = 0, BytesOut = 0\<rparr>,
            \<lparr>bwPublicKey = ''Q'', BytesIn = 600 / 1048576, BytesOut = 0\<rparr>]
   \<and> snd (calculatePeerBandwidth (Parsed None [examplePeer ''P'', examplePeer ''Q''])
         (\<lambda>k. (1000, 500)) 100
         [''Q'' \<mapsto> \<lparr>BytesReceived = 400, BytesTransmitted = 500, LastChecked = 90\<rparr>]) ''P''
     = Some \<lparr>BytesReceived = 1000, BytesTransmitted = 500, LastChecked = 100\<rparr>"
proof -
  let ?lr = "[''Q'' \<mapsto> \<lparr>BytesReceived = 400, BytesTransmitted = 500, LastChecked = 90\<rparr>]"
  have h1: "Status (Parsed None [examplePeer ''P'', examplePeer ''Q''])
      = Inr \<lparr>LoggedIn = False, Self = None, Peers = [examplePeer ''P'', examplePeer ''Q'']\<rparr>"
    by (simp add: Status_def)
  have h2: "examplePeer ''P''
      \<in> set (Peers \<lparr>LoggedIn = False, Self = None,
                Peers = [examplePeer ''P'', examplePeer ''Q'']\<rparr>)"
    by simp
  have h3: "?lr (PublicKey (examplePeer ''P'')) = None"
    by (simp add: examplePeer_def)
  from first_seen_peer_baseline
         [where lr = "?lr" and traffic = "\<lambda>k. (1000, 500)" and now = 100, OF h1 h2 h3]
  show ?thesis by (simp add: cycle_eval)
qed

section \<open>The keys of the readings after a cycle\<close>

text \<open>
  Claim C4.  A cycle whose status query succeeded returns a report list, and after it
  the keys of \<open>lastReadings\<close> are the public keys of the snapshot, no more and no less.
  A peer that was absent from that snapshot and is present in the snapshot of a following
  cycle is reported there with zero deltas, as a peer seen for the first time.
\<close>

theorem readings_keys_equal_snapshot_keys:
  assumes "Status cmd = Inr status"
  shows "(\<exists>reports. fst (calculatePeerBandwidth cmd traffic now lr) = Inr reports)
         \<and> dom (snd (calculatePeerBandwidth cmd traffic now lr)) = PublicKey ` set (Peers status)
         \<and> (\<forall>cmd2 status2 traffic2 now2 peer.
               Status cmd2 = Inr status2 \<and> peer \<in> set (Peers status2)
               \<and> PublicKey peer \<notin> PublicKey ` set (Peers status)
               \<longrightarrow> (\<exists>reports2.
                     fst (calculatePeerBandwidth cmd2 traffic2 now2
                            (snd (calculatePeerBandwidth cmd traffic now lr))) = Inr reports2
                     \<and> filter (\<lambda>r. bwPublicKey r = PublicKey peer) reports2
                       = [\<lparr>bwPublicKey = PublicKey peer, BytesIn = 0, BytesOut = 0\<rparr>]))"
proof (intro conjI allI impI)
  show "\<exists>reports. fst (calculatePeerBandwidth cmd traffic now lr) = Inr reports"
    using cycle_returns_list [OF assms] by blast
next
  show "dom (snd (calculatePeerBandwidth cmd traffic now lr)) = PublicKey ` set (Peers status)"
    using assms by (rule cycle_dom)
next
  fix cmd2 status2 traffic2 now2 peer
  let ?lr' = "snd (calculatePeerBandwidth cmd traffic now lr)"
  assume a: "Status cmd2 = Inr status2 \<and> peer \<in> set (Peers status2)
               \<and> PublicKey peer \<notin> PublicKey ` set (Peers status)"
  define reports2 where
    "reports2 = fst (foldl (peerStep traffic2 now2) ([], ?lr') (Peers status2))"
  have res: "fst (calculatePeerBandwidth cmd2 traffic2 now2 ?lr') = Inr reports2"
    unfolding reports2_def using a by (intro cycle_returns_list) simp
  have none: "?lr' (PublicKey peer) = None"
    using cycle_readings [OF assms] a by simp
  have s2: "Status cmd2 = Inr status2" using a by simp
  have "filter (\<lambda>r. bwPublicKey r = PublicKey peer) reports2
          = emitted traffic2 now2 ?lr' (PublicKey peer)"
    using cycle_reports [OF s2 res] a by simp
  with none have "filter (\<lambda>r. bwPublicKey r = PublicKey peer) reports2
           = [\<lparr>bwPublicKey = PublicKey peer, BytesIn = 0, BytesOut = 0\<rparr>]"
    by (simp add: emitted_def)
  with res show "\<exists>reports2.
      fst (calculatePeerBandwidth cmd2 traffic2 now2 ?lr') = Inr reports2
      \<and> filter (\<lambda>r. bwPublicKey r = PublicKey peer) reports2
        = [\<lparr>bwPublicKey = PublicKey peer, BytesIn = 0, BytesOut = 0\<rparr>]"
    by blast
qed

theorem readings_keys_equal_snapshot_keys_witness:
  "Status (Parsed None [examplePeer ''Q''])
     = Inr \<lparr>LoggedIn = False, Self = None, Peers = [examplePeer ''Q'']\<rparr>
   \<and> dom (snd (calculatePeerBandwidth (Parsed None [examplePeer ''Q'']) (\<lambda>k. (1000, 500)) 100
          [''P'' \<mapsto> \<lparr>BytesReceived = 7, BytesTransmitted = 9, LastChecked = 90\<rparr>,
           ''Q'' \<mapsto> \<lparr>BytesReceived = 1000, BytesTransmitted = 500, LastChecked = 90\<rparr>]))
     = {''Q''}
   \<and> PublicKey (examplePeer ''P'') \<notin> PublicKey ` set [examplePeer ''Q'']
   \<and> (\<exists>reports2.
         fst (calculatePeerBandwidth (Parsed None [examplePeer ''P'', examplePeer ''Q''])
            (\<lambda>k. (1000, 500)) 110
            (snd (calculatePeerBandwidth (Parsed None [examplePeer ''Q''])
               (\<lambda>k. (1000, 500)) 100
               [''P'' \<mapsto> \<lparr>BytesReceived = 7, BytesTransmitted = 9, LastChecked = 90\<rparr>,
                ''Q'' \<mapsto> \<lparr>BytesReceived = 1000, BytesTransmitted = 500,
                           LastChecked = 90\<rparr>])))
           = Inr reports2
         \<and> filter (\<lambda>r. bwPublicKey r = ''P'') reports2
           = [\<lparr>bwPublicKey = ''P'', BytesIn = 0, BytesOut = 0\<rparr>])
   \<and> fst (calculatePeerBandwidth (Parsed None [examplePeer ''P'', examplePeer ''Q''])
          (\<lambda>k. (1000, 500)) 110
          (snd (calculatePeerBandwidth (Parsed None [examplePeer ''Q'']) (\<lambda>k. (1000, 500)) 100
             [''P'' \<mapsto> \<lparr>BytesReceived = 7, BytesTransmitted = 9, LastChecked = 90\<rparr>,
              ''Q'' \<mapsto> \<lparr>BytesReceived = 1000, BytesTransmitted = 500, LastChecked = 90\<rparr>])))
     = Inr [\<lparr>bwPublicKey = ''P'', BytesIn = 0, BytesOut = 0\<rparr>,
            \<lparr>bwPublicKey = ''Q'', BytesIn = 0, BytesOut = 0\<rparr>]"
proof -
  let ?lr = "[''P'' \<mapsto> \<lparr>BytesReceived = 7, BytesTransmitted = 9, LastChecked = 90\<rparr>,
              ''Q'' \<mapsto> \<lparr>BytesReceived = 1000, BytesTransmitted = 500, LastChecked = 90\<rparr>]"
  let ?st = "\<lparr>LoggedIn = False, Self = None, Peers = [examplePeer ''Q'']\<rparr>"
  let ?st2 = "\<lparr>LoggedIn = False, Self = None, Peers = [examplePeer ''P'', examplePeer ''Q'']\<rparr>"
  let ?lr' = "snd (calculatePeerBandwidth (Parsed None [examplePeer ''Q''])
                (\<lambda>k. (1000, 500)) 100 ?lr)"
  have h1: "Status (Parsed None [examplePeer ''Q'']) = Inr ?st"
    by (simp add: Status_def)
  note inst = readings_keys_equal_snapshot_keys
               [where lr = "?lr" and traffic = "\<lambda>k. (1000, 500)" and now = 100, OF h1]
  have dom: "dom ?lr' = {''Q''}"
    using inst by (simp add: examplePeer_def)
  have h2: "Status (Parsed None [examplePeer ''P'', examplePeer ''Q'']) = Inr ?st2
      \<and> examplePeer ''P'' \<in> set (Peers ?st2)
      \<and> PublicKey (examplePeer ''P'') \<notin> PublicKey ` set (Peers ?st)"
    by (simp add: Status_def examplePeer_def)
  from inst have "\<forall>cmd2 status2 traffic2 now2 peer.
      Status cmd2 = Inr status2 \<and> peer \<in> set (Peers status2)
      \<and> PublicKey peer \<notin> PublicKey ` set (Peers ?st)
      \<longrightarrow> (\<exists>reports2.
            fst (calculatePeerBandwidth cmd2 traffic2 now2 ?lr') = Inr reports2
            \<and> filter (\<lambda>r. bwPublicKey r = PublicKey peer) reports2
              = [\<lparr>bwPublicKey = PublicKey peer, BytesIn = 0, BytesOut = 0\<rparr>])"
    by (elim conjE)
  then have "Status (Parsed None [examplePeer ''P'', examplePeer ''Q'']) = Inr ?st2
      \<and> examplePeer ''P'' \<in> set (Peers ?st2)
      \<and> PublicKey (examplePeer ''P'') \<notin> PublicKey ` set (Peers ?st)
      \<longrightarrow> (\<exists>reports2.
            fst (calculatePeerBandwidth (Parsed None [examplePeer ''P'', examplePeer ''Q''])
                   (\<lambda>k. (1000, 500)) 110 ?lr') = Inr reports2
            \<and> filter (\<lambda>r. bwPublicKey r = PublicKey (examplePeer ''P'')) reports2
              = [\<lparr>bwPublicKey = PublicKey (examplePeer ''P''), BytesIn = 0, BytesOut = 0\<rparr>])"
    by blast
  with h2 have second: "\<exists>reports2.
            fst (calculatePeerBandwidth (Parsed None [examplePeer ''P'', examplePeer ''Q''])
                   (\<lambda>k. (1000, 500)) 110 ?lr') = Inr reports2
            \<and> filter (\<lambda>r. bwPublicKey r = PublicKey (examplePeer ''P'')) reports2
              = [\<lparr>bwPublicKey = PublicKey (examplePeer ''P''), BytesIn = 0, BytesOut = 0\<rparr>]"
    by blast
  have ev: "fst (calculatePeerBandwidth (Parsed None [examplePeer ''P'', examplePeer ''Q''])
          (\<lambda>k. (1000, 500)) 110 ?lr')
     = Inr [\<lparr>bwPublicKey = ''P'', BytesIn = 0, BytesOut = 0\<rparr>,
            \<lparr>bwPublicKey = ''Q'', BytesIn = 0, BytesOut = 0\<rparr>]"
    by (simp add: cycle_eval)
  have notin: "PublicKey (examplePeer ''P'') \<notin> PublicKey ` set [examplePeer ''Q'']"
    by (simp add: examplePeer_def)
  have pk: "PublicKey (examplePeer ''P'') = ''P''" by (simp add: examplePeer_def)
  from second have second': "\<exists>reports2.
            fst (calculatePeerBandwidth (Parsed None [examplePeer ''P'', examplePeer ''Q''])
                   (\<lambda>k. (1000, 500)) 110 ?lr') = Inr reports2
            \<and> filter (\<lambda>r. bwPublicKey r = ''P'') reports2
              = [\<lparr>bwPublicKey = ''P'', BytesIn = 0, BytesOut = 0\<rparr>]"
    unfolding pk .
  from h1 dom notin second' ev show ?thesis
    by (intro conjI)
qed

section \<open>No negative report\<close>

text \<open>
  Claim C5.  When the current received and transmitted counters of every peer of the
  snapshot are not negative, every report of the cycle has \<open>BytesIn \<ge> 0\<close> and
  \<open>BytesOut \<ge> 0\<close>, whatever the cached readings are.
\<close>

theorem reports_nonnegative:
  assumes "Status cmd = Inr status"
    and "\<forall>p \<in> set (Peers status).
           0 \<le> sint (fst (traffic (PublicKey p))) \<and> 0 \<le> sint (snd (traffic (PublicKey p)))"
    and "fst (calculatePeerBandwidth cmd traffic now lr) = Inr reports"
  shows "\<forall>r \<in> set reports. 0 \<le> BytesIn r \<and> 0 \<le> BytesOut r"
proof
  fix r
  assume r: "r \<in> set reports"
  have em: "r \<in> set (emitted traffic now lr (bwPublicKey r))"
    using assms(1,3) r by (rule cycle_report_emitted)
  have "bwPublicKey r \<in> PublicKey ` set (Peers status)"
    using assms(1,3) r by (rule cycle_report_keys)
  with assms(2) have "0 \<le> sint (fst (traffic (bwPublicKey r)))"
      and "0 \<le> sint (snd (traffic (bwPublicKey r)))"
    by auto
  with em show "0 \<le> BytesIn r \<and> 0 \<le> BytesOut r"
    by (rule emitted_nonneg)
qed

theorem reports_nonnegative_witness:
  "fst (calculatePeerBandwidth (Parsed None [examplePeer ''P'']) (\<lambda>k. (2097152, 3145728)) 100
         [''P'' \<mapsto> \<lparr>BytesReceived = 5000000, BytesTransmitted = 1048576, LastChecked = 90\<rparr>])
     = Inr [\<lparr>bwPublicKey = ''P'', BytesIn = 2, BytesOut = 2\<rparr>]
   \<and> 0 \<le> BytesIn \<lparr>bwPublicKey = ''P'', BytesIn = 2, BytesOut = 2\<rparr>
   \<and> 0 \<le> BytesOut \<lparr>bwPublicKey = ''P'', BytesIn = 2, BytesOut = 2\<rparr>"
proof -
  let ?lr = "[''P'' \<mapsto> \<lparr>BytesReceived = 5000000, BytesTransmitted = 1048576, LastChecked = 90\<rparr>]"
  let ?traffic = "\<lambda>k :: string. (2097152 :: int64, 3145728 :: int64)"
  have h1: "Status (Parsed None [examplePeer ''P''])
      = Inr \<lparr>LoggedIn = False, Self = None, Peers = [examplePeer ''P'']\<rparr>"
    by (simp add: Status_def)
  have h2: "\<forall>p \<in> set (Peers \<lparr>LoggedIn = False, Self = None, Peers = [examplePeer ''P'']\<rparr>).
      0 \<le> sint (fst (?traffic (PublicKey p))) \<and> 0 \<le> sint (snd (?traffic (PublicKey p)))"
    by simp
  have h3: "fst (calculatePeerBandwidth (Parsed None [examplePeer ''P'']) ?traffic 100 ?lr)
      = Inr [\<lparr>bwPublicKey = ''P'', BytesIn = 2, BytesOut = 2\<rparr>]"
    by (simp add: cycle_eval)
  from reports_nonnegative [OF h1 h2 h3] h3
  show ?thesis by simp
qed

section \<open>A failed snapshot query\<close>

text \<open>
  Claim C6.  A cycle that fails to obtain a snapshot is to return an error, emit no
  report and leave \<open>lastReadings\<close> as it was.  This is what happens when
  \<open>tsClient.Status()\<close> returns an error, and it returns one exactly when the output of the
  status command does not decode: the cycle returns the error, the reporter posts
  nothing, and \<open>lastReadings\<close> is unchanged.  A status command that fails to run is not
  such a case: \<open>Status\<close> answers it with an empty snapshot and no error, and the cycle
  returns an empty report list and empties \<open>lastReadings\<close>.
\<close>

theorem failed_status_query:
  "calculatePeerBandwidth NotJSON traffic now lastReadings
     = (Inl (GetStatusError ParseStatusError), lastReadings)
   \<and> fst (snd (reportPeerBandwidth apiURL NotJSON traffic now resp lastReadings)) = []
   \<and> snd (snd (reportPeerBandwidth apiURL NotJSON traffic now resp lastReadings)) = lastReadings
   \<and> ((\<exists>err. fst (calculatePeerBandwidth cmd traffic now lastReadings) = Inl err)
        = (cmd = NotJSON))
   \<and> calculatePeerBandwidth CmdFailed traffic now lastReadings = (Inr [], Map.empty)"
  by (cases cmd)
     (simp_all add: calculatePeerBandwidth_def reportPeerBandwidth_def Status_def Let_def)

text \<open>
  The provider error of a daemon that is not running: the cycle returns no error, the
  cached reading of peer \<open>P\<close> is removed, and the reporter posts an empty list.
\<close>

theorem failed_command_counterexample:
  "[''P'' \<mapsto> \<lparr>BytesReceived = 1000, BytesTransmitted = 500, LastChecked = 90\<rparr>] ''P''
     = Some \<lparr>BytesReceived = 1000, BytesTransmitted = 500, LastChecked = 90\<rparr>
   \<and> fst (calculatePeerBandwidth CmdFailed (\<lambda>k. (0, 0)) 100
          [''P'' \<mapsto> \<lparr>BytesReceived = 1000, BytesTransmitted = 500, LastChecked = 90\<rparr>])
     = Inr []
   \<and> snd (calculatePeerBandwidth CmdFailed (\<lambda>k. (0, 0)) 100
          [''P'' \<mapsto> \<lparr>BytesReceived = 1000, BytesTransmitted = 500, LastChecked = 90\<rparr>]) ''P''
     = None
   \<and> fst (snd (reportPeerBandwidth ''http://controller/gerbil/receive-bandwidth'' CmdFailed
          (\<lambda>k. (0, 0)) 100 (PostStatus 200)
          [''P'' \<mapsto> \<lparr>BytesReceived = 1000, BytesTransmitted = 500, LastChecked = 90\<rparr>]))
     = [Post ''http://controller/gerbil/receive-bandwidth'' (BandwidthBody [])]"
  by (simp add: reportPeerBandwidth_def cycle_eval)

section \<open>Peer-change notifications\<close>

text \<open>
  Claim C7.  The specification wants a peer-change notification posted to the notify
  URL whenever a cycle baselines a new peer or prunes an absent one.  The program has
  no such call: \<open>notifyPeerChange\<close> would issue the request, and nothing calls it.  What
  holds is that a tick of the reporter issues at most one request, the POST of the
  report list to the bandwidth URL, and no notification.
\<close>

theorem tick_issues_only_the_report:
  "fst (snd (reportPeerBandwidth apiURL cmd traffic now resp lr))
     = (case fst (calculatePeerBandwidth cmd traffic now lr) of
          Inl err \<Rightarrow> []
        | Inr bandwidths \<Rightarrow> [Post apiURL (BandwidthBody bandwidths)])
   \<and> filter isNotification (fst (snd (reportPeerBandwidth apiURL cmd traffic now resp lr))) = []"
  by (cases "calculatePeerBandwidth cmd traffic now lr"; cases resp)
     (auto simp: reportPeerBandwidth_def isNotification_def split: sum.splits)

text \<open>
  In the tick below peer \<open>P\<close> is baselined and peer \<open>Q\<close> is pruned, and the only request
  issued is the bandwidth report; the last line shows the request \<open>notifyPeerChange\<close>
  would have issued for \<open>P\<close>.
\<close>

theorem notification_counterexample:
  "[''Q'' \<mapsto> \<lparr>BytesReceived = 7, BytesTransmitted = 9, LastChecked = 90\<rparr>] ''P'' = None
   \<and> snd (snd (reportPeerBandwidth ''http://controller/gerbil/receive-bandwidth''
        (Parsed None [examplePeer ''P'']) (\<lambda>k. (1000, 500)) 100 (PostStatus 200)
        [''Q'' \<mapsto> \<lparr>BytesReceived = 7, BytesTransmitted = 9, LastChecked = 90\<rparr>])) ''P''
     = Some \<lparr>BytesReceived = 1000, BytesTransmitted = 500, LastChecked = 100\<rparr>
   \<and> snd (snd (reportPeerBandwidth ''http://controller/gerbil/receive-bandwidth''
        (Parsed None [examplePeer ''P'']) (\<lambda>k. (1000, 500)) 100 (PostStatus 200)
        [''Q'' \<mapsto> \<lparr>BytesReceived = 7, BytesTransmitted = 9, LastChecked = 90\<rparr>])) ''Q''
     = None
   \<and> fst (snd (reportPeerBandwidth ''http://controller/gerbil/receive-bandwidth''
        (Parsed None [examplePeer ''P'']) (\<lambda>k. (1000, 500)) 100 (PostStatus 200)
        [''Q'' \<mapsto> \<lparr>BytesReceived = 7, BytesTransmitted = 9, LastChecked = 90\<rparr>]))
     = [Post ''http://controller/gerbil/receive-bandwidth''
          (BandwidthBody [\<lparr>bwPublicKey = ''P'', BytesIn = 0, BytesOut = 0\<rparr>])]
   \<and> filter isNotification
        [Post ''http://controller/gerbil/receive-bandwidth''
          (BandwidthBody [\<lparr>bwPublicKey = ''P'', BytesIn = 0, BytesOut = 0\<rparr>])]
     = []
   \<and> notifyPeerChange ''http://notify'' ''add'' ''P''
     = [Post ''http://notify'' (NotifyBody ''add'' ''P'')]"
  by (simp add: reportPeerBandwidth_def notifyPeerChange_def isNotification_def cycle_eval)

section \<open>The status handler without self information\<close>

text \<open>
  Claim C8.  \<open>handleStatus\<close> is to answer every status the provider returns with the
  status view or with a 500 response.  When the status has no self information, as when
  the \<open>tailscale\<close> command fails or its output has no \<open>Self\<close> object, the handler reads
  \<open>status.Self.Hostname\<close> through a nil pointer and panics instead.
\<close>

theorem status_handler_panics_without_self:
  "handleStatus CmdFailed = Panic \<and> handleStatus (Parsed None peers) = Panic"
  by (simp add: handleStatus_def Status_def)

section \<open>The remote configuration loop\<close>








text \<open>The definitions that evaluate an acquisition on concrete inputs.\<close>

lemmas acquire_eval =
  acquireConfig_def cleanRemoteConfigURL_def TrimSuffix_def loadRemoteConfig_def
  loadConfig_def emptyConfig_def exampleConfig_def Let_def

text \<open>
  The cleaning of the URL comes before the choice of the source: a remote configuration
  URL that is only a slash counts as none.
\<close>

lemma bare_slash_is_no_remote_source: "acquireConfig [] ''/'' emptyConfig OpenFailed fetches = Fatal"
  by (simp add: acquire_eval)




section \<open>Reports and the time of the cached reading\<close>

text \<open>
  Claim C10.  For a peer of the snapshot with a cached prior reading, the cycle returns a
  report list that holds a report for the peer exactly when the time of the cycle is
  later than the time of the cached reading.  In either case the cached reading is
  overwritten with the current counters and the time of the cycle.
\<close>

theorem report_only_when_time_advances:
  assumes "Status cmd = Inr status"
    and "peer \<in> set (Peers status)"
    and "lr (PublicKey peer) = Some prior"
  shows "(\<exists>reports.
            fst (calculatePeerBandwidth cmd traffic now lr) = Inr reports
            \<and> (filter (\<lambda>r. bwPublicKey r = PublicKey peer) reports \<noteq> [])
                = (LastChecked prior < now))
         \<and> snd (calculatePeerBandwidth cmd traffic now lr) (PublicKey peer)
           = Some \<lparr>BytesReceived = fst (traffic (PublicKey peer)),
                   BytesTransmitted = snd (traffic (PublicKey peer)),
                   LastChecked = now\<rparr>"
proof
  define reports where "reports = fst (foldl (peerStep traffic now) ([], lr) (Peers status))"
  have res: "fst (calculatePeerBandwidth cmd traffic now lr) = Inr reports"
    unfolding reports_def using assms(1) by (rule cycle_returns_list)
  have "filter (\<lambda>r. bwPublicKey r = PublicKey peer) reports
          = emitted traffic now lr (PublicKey peer)"
    using cycle_reports [OF assms(1) res] assms(2) by simp
  then have "(filter (\<lambda>r. bwPublicKey r = PublicKey peer) reports \<noteq> [])
      = (LastChecked prior < now)"
    using assms(3) by (simp add: emitted_def)
  with res show "\<exists>reports.
            fst (calculatePeerBandwidth cmd traffic now lr) = Inr reports
            \<and> (filter (\<lambda>r. bwPublicKey r = PublicKey peer) reports \<noteq> [])
                = (LastChecked prior < now)"
    by blast
next
  show "snd (calculatePeerBandwidth cmd traffic now lr) (PublicKey peer)
           = Some \<lparr>BytesReceived = fst (traffic (PublicKey peer)),
                   BytesTransmitted = snd (traffic (PublicKey peer)),
                   LastChecked = now\<rparr>"
    using cycle_readings [OF assms(1)] assms(2) by (simp add: reading_def)
qed

theorem report_only_when_time_advances_witness:
  "fst (calculatePeerBandwidth (Parsed None [examplePeer ''P'', examplePeer ''Q''])
         (\<lambda>k. (2097152, 3145728)) 90
         [''P'' \<mapsto> \<lparr>BytesReceived = 1000, BytesTransmitted = 500, LastChecked = 90\<rparr>,
          ''Q'' \<mapsto> \<lparr>BytesReceived = 0, BytesTransmitted = 0, LastChecked = 80\<rparr>])
     = Inr [\<lparr>bwPublicKey = ''Q'', BytesIn = 2, BytesOut = 3\<rparr>]
   \<and> snd (calculatePeerBandwidth (Parsed None [examplePeer ''P'', examplePeer ''Q''])
         (\<lambda>k. (2097152, 3145728)) 90
         [''P'' \<mapsto> \<lparr>BytesReceived = 1000, BytesTransmitted = 500, LastChecked = 90\<rparr>,
          ''Q'' \<mapsto> \<lparr>BytesReceived = 0, BytesTransmitted = 0, LastChecked = 80\<rparr>]) ''P''
     = Some \<lparr>BytesReceived = 2097152, BytesTransmitted = 3145728, LastChecked = 90\<rparr>"
proof -
  let ?prior = "\<lparr>BytesReceived = 1000, BytesTransmitted = 500, LastChecked = 90\<rparr>"
  let ?lr = "[''P'' \<mapsto> ?prior,
              ''Q'' \<mapsto> \<lparr>BytesReceived = 0, BytesTransmitted = 0, LastChecked = 80\<rparr>]"
  have h1: "Status (Parsed None [examplePeer ''P'', examplePeer ''Q''])
      = Inr \<lparr>LoggedIn = False, Self = None, Peers = [examplePeer ''P'', examplePeer ''Q'']\<rparr>"
    by (simp add: Status_def)
  have h2: "examplePeer ''P''
      \<in> set (Peers \<lparr>LoggedIn = False, Self = None,
                Peers = [examplePeer ''P'', examplePeer ''Q'']\<rparr>)"
    by simp
  have h3: "?lr (PublicKey (examplePeer ''P'')) = Some ?prior"
    by (simp add: examplePeer_def)
  from report_only_when_time_advances
         [where lr = "?lr" and traffic = "\<lambda>k. (2097152, 3145728)" and now = 90,
          OF h1 h2 h3]
  show ?thesis by (simp add: cycle_eval)
qed

end
